theory Spec2Isabelle
  imports Main "HOL-Library.Word"
begin

unbundle bit_operations_syntax

section \<open>Data model of myfs.c\<close>

text \<open>
  Pointers are addresses; a C pointer that may be NULL is an \<open>addr option\<close>, with
  \<open>None\<close> for NULL. A function returning \<open>int\<close> returns \<open>Inr ()\<close> for 0 and
  \<open>Inl e\<close> for the errno value \<open>e\<close>. The \<open>printf\<close> calls write to the kernel message
  buffer only and are left out of the model.
\<close>

type_synonym addr = nat

datatype errno = ENOMEM | ENOSYS | ENOTTY

type_synonym rc = "errno + unit"

definition MYFS_MAGIC :: "32 word" where
  "MYFS_MAGIC = 0x4D594653"

record myfs_sb =
  magic :: "32 word"
  total_blocks :: "64 word"
  free_blocks :: "64 word"

record myfs_mount =
  mp :: "addr option"
  sb :: myfs_sb

record timespec =
  tv_sec :: int
  tv_nsec :: int

record myfs_node =
  ino :: "64 word"
  mode :: "16 word"
  nlink :: "64 word"
  size_n :: "64 word"
  atime :: timespec
  mtime :: timespec
  ctime :: timespec

subsection \<open>Host structures the driver reads and writes\<close>

text \<open>
  The fields of the host's \<open>struct statfs\<close>, \<open>struct vnode\<close>, \<open>struct mount\<close> and
  \<open>struct uio\<close> that the driver and the properties below mention. The vnodes of a
  mount are kept in its \<open>mnt_nvnodelist\<close>.
\<close>

record statfs =
  f_bsize :: "64 word"
  f_iosize :: "64 word"
  f_blocks :: "64 word"
  f_bfree :: "64 word"
  f_bavail :: "64 word"
  f_files :: "64 word"
  f_ffree :: "64 word"
  f_namemax :: "32 word"
  f_fsid :: "64 word"

record vnode =
  v_data :: "addr option"
  v_usecount :: int

record mount =
  mnt_data :: "addr option"
  mnt_stat :: statfs
  mnt_flag :: "64 word"
  mnt_nvnodelist :: "vnode list"

record uio =
  uio_offset :: int
  uio_resid :: int

text \<open>
  The constants of the host's headers and the file system id that
  \<open>vfs_getnewfsid\<close> hands out are parameters of the model.
\<close>

record host =
  PAGE_SIZE :: "64 word"
  NAME_MAX :: "32 word"
  MNT_LOCAL :: "64 word"
  MNT_WAIT :: int
  new_fsid :: "64 word"

definition vfs_getnewfsid :: "host \<Rightarrow> mount \<Rightarrow> mount" where
  "vfs_getnewfsid H m = m\<lparr>mnt_stat := (mnt_stat m)\<lparr>f_fsid := new_fsid H\<rparr>\<rparr>"

subsection \<open>Kernel memory of type M_TEMP\<close>

text \<open>
  The driver allocates \<open>struct myfs_mount\<close> and frees \<open>struct myfs_mount\<close> and
  \<open>struct myfs_node\<close> objects. The store keeps the live objects of each type by
  address and records every call of \<open>free\<close>.
\<close>

record kmem =
  mounts_h :: "addr \<rightharpoonup> myfs_mount"
  nodes_h :: "addr \<rightharpoonup> myfs_node"
  free_log :: "addr list"

definition zero_myfs_mount :: myfs_mount where
  "zero_myfs_mount = \<lparr>mp = None, sb = \<lparr>magic = 0, total_blocks = 0, free_blocks = 0\<rparr>\<rparr>"

definition free_mount :: "addr \<Rightarrow> kmem \<Rightarrow> kmem" where
  "free_mount a k = k\<lparr>mounts_h := (mounts_h k)(a := None), free_log := a # free_log k\<rparr>"

definition free_node :: "addr \<Rightarrow> kmem \<Rightarrow> kmem" where
  "free_node a k = k\<lparr>nodes_h := (nodes_h k)(a := None), free_log := a # free_log k\<rparr>"

section \<open>VFS operations\<close>

text \<open>
  \<open>myfs_mount H got mpa (m, k)\<close>: \<open>mpa\<close> is the pointer \<open>mp\<close>, \<open>m\<close> the
  \<open>struct mount\<close> it points to, \<open>k\<close> the kernel memory and \<open>got\<close> the answer of
  \<open>malloc\<close> (zeroed memory at that address, or NULL).
\<close>

definition myfs_mount :: "host \<Rightarrow> addr option \<Rightarrow> addr \<Rightarrow> mount \<times> kmem \<Rightarrow> rc \<times> mount \<times> kmem" where
  "myfs_mount H got mpa mk =
     (case mk of (m, k) \<Rightarrow>
       (case got of
          None \<Rightarrow> (Inl ENOMEM, m, k)
        | Some mmp \<Rightarrow>
            (let mm0 = zero_myfs_mount\<lparr>mp := Some mpa\<rparr>;
                 mm1 = mm0\<lparr>sb := (sb mm0)\<lparr>magic := MYFS_MAGIC\<rparr>\<rparr>;
                 mm2 = mm1\<lparr>sb := (sb mm1)\<lparr>total_blocks := 0\<rparr>\<rparr>;
                 mm3 = mm2\<lparr>sb := (sb mm2)\<lparr>free_blocks := 0\<rparr>\<rparr>;
                 st = (mnt_stat m)\<lparr>f_iosize := PAGE_SIZE H,
                                   f_blocks := total_blocks (sb mm3),
                                   f_bfree := free_blocks (sb mm3),
                                   f_bavail := free_blocks (sb mm3),
                                   f_namemax := NAME_MAX H\<rparr>;
                 m1 = m\<lparr>mnt_data := Some mmp, mnt_stat := st\<rparr>;
                 m2 = vfs_getnewfsid H m1;
                 m3 = m2\<lparr>mnt_flag := mnt_flag m2 OR MNT_LOCAL H\<rparr>
             in (Inr (), m3, k\<lparr>mounts_h := (mounts_h k)(mmp \<mapsto> mm3)\<rparr>))))"

definition myfs_unmount :: "mount \<times> kmem \<Rightarrow> rc \<times> mount \<times> kmem" where
  "myfs_unmount mk =
     (case mk of (m, k) \<Rightarrow>
       (case mnt_data m of
          Some mmp \<Rightarrow> (Inr (), m\<lparr>mnt_data := None\<rparr>, free_mount mmp k)
        | None \<Rightarrow> (Inr (), m, k)))"

text \<open>\<open>vpp\<close> is the caller's \<open>struct vnode *\<close> variable, which the function may fill.\<close>

definition myfs_root :: "mount \<Rightarrow> addr option \<Rightarrow> rc \<times> addr option" where
  "myfs_root m vpp = (Inl ENOSYS, vpp)"

text \<open>
  \<open>myfs_statfs\<close> reads through \<open>mp->mnt_data\<close> with no check: on a NULL or dangling
  pointer the kernel faults, which is the result \<open>None\<close>.
\<close>

definition myfs_statfs :: "host \<Rightarrow> mount \<times> kmem \<Rightarrow> statfs \<Rightarrow> (rc \<times> statfs) option" where
  "myfs_statfs H mk sbp =
     (case mk of (m, k) \<Rightarrow>
       (case mnt_data m of
          None \<Rightarrow> None
        | Some mmp \<Rightarrow>
            (case mounts_h k mmp of
               None \<Rightarrow> None
             | Some mm \<Rightarrow>
                 Some (Inr (),
                   sbp\<lparr>f_blocks := total_blocks (sb mm),
                       f_bfree := free_blocks (sb mm),
                       f_bavail := free_blocks (sb mm),
                       f_files := 0,
                       f_ffree := 0,
                       f_bsize := PAGE_SIZE H,
                       f_iosize := PAGE_SIZE H,
                       f_namemax := NAME_MAX H\<rparr>))))"

definition myfs_vget :: "mount \<Rightarrow> 64 word \<Rightarrow> addr option \<Rightarrow> rc \<times> addr option" where
  "myfs_vget m i vpp = (Inl ENOSYS, vpp)"

section \<open>Vnode operations\<close>

text \<open>
  The argument structures: \<open>a_vp\<close> is the vnode the operation is called on. The
  operations that read no argument take any argument structure.
\<close>

record vop_args =
  a_vp :: vnode

record vop_read_args = vop_args +
  a_uio :: uio
  a_ioflag :: int

record vop_fsync_args = vop_args +
  a_waitfor :: int
  a_td :: addr

definition myfs_lookup :: "'a \<Rightarrow> rc" where
  "myfs_lookup ap = Inl ENOSYS"

definition myfs_create :: "'a \<Rightarrow> rc" where
  "myfs_create ap = Inl ENOSYS"

definition myfs_mknod :: "'a \<Rightarrow> rc" where
  "myfs_mknod ap = Inl ENOSYS"

definition myfs_open :: "'a \<Rightarrow> rc" where
  "myfs_open ap = Inr ()"

definition myfs_close :: "'a \<Rightarrow> rc" where
  "myfs_close ap = Inr ()"

definition myfs_access :: "'a \<Rightarrow> rc" where
  "myfs_access ap = Inl ENOSYS"

definition myfs_getattr :: "'a \<Rightarrow> rc" where
  "myfs_getattr ap = Inl ENOSYS"

definition myfs_setattr :: "'a \<Rightarrow> rc" where
  "myfs_setattr ap = Inl ENOSYS"

definition myfs_read :: "vop_read_args \<Rightarrow> rc \<times> uio" where
  "myfs_read ap = (Inl ENOSYS, a_uio ap)"

definition myfs_write :: "'a \<Rightarrow> rc" where
  "myfs_write ap = Inl ENOSYS"

definition myfs_ioctl :: "'a \<Rightarrow> rc" where
  "myfs_ioctl ap = Inl ENOTTY"

definition myfs_poll :: "'a \<Rightarrow> rc" where
  "myfs_poll ap = Inl ENOSYS"

text \<open>\<open>myfs_reclaim\<close> returns the vnode \<open>ap->a_vp\<close> as it leaves it.\<close>

definition myfs_reclaim :: "'a vop_args_scheme \<Rightarrow> kmem \<Rightarrow> rc \<times> vnode \<times> kmem" where
  "myfs_reclaim ap k =
     (let vp = a_vp ap in
       (case v_data vp of
          Some node \<Rightarrow> (Inr (), vp\<lparr>v_data := None\<rparr>, free_node node k)
        | None \<Rightarrow> (Inr (), vp, k)))"

definition myfs_readdir :: "'a \<Rightarrow> rc" where
  "myfs_readdir ap = Inl ENOSYS"

definition myfs_readlink :: "'a \<Rightarrow> rc" where
  "myfs_readlink ap = Inl ENOSYS"

definition myfs_symlink :: "'a \<Rightarrow> rc" where
  "myfs_symlink ap = Inl ENOSYS"

definition myfs_remove :: "'a \<Rightarrow> rc" where
  "myfs_remove ap = Inl ENOSYS"

definition myfs_rename :: "'a \<Rightarrow> rc" where
  "myfs_rename ap = Inl ENOSYS"

definition myfs_mkdir :: "'a \<Rightarrow> rc" where
  "myfs_mkdir ap = Inl ENOSYS"

definition myfs_rmdir :: "'a \<Rightarrow> rc" where
  "myfs_rmdir ap = Inl ENOSYS"

definition myfs_inactive :: "'a \<Rightarrow> rc" where
  "myfs_inactive ap = Inr ()"

definition myfs_truncate :: "'a \<Rightarrow> rc" where
  "myfs_truncate ap = Inl ENOSYS"

definition myfs_fsync :: "host \<Rightarrow> vop_fsync_args \<Rightarrow> rc" where
  "myfs_fsync H ap =
     (let vp = a_vp ap; waitfor = a_waitfor ap; td = a_td ap in
       if waitfor = MNT_WAIT H then Inr () else Inr ())"

section \<open>Error kinds\<close>

text \<open>
  The error kind NotSupported on the errno values of the driver: ENOSYS (function not
  implemented) and ENOTTY (inappropriate ioctl for device) say that the operation is
  not supported; ENOMEM does not.
\<close>

fun NotSupported :: "errno \<Rightarrow> bool" where
  "NotSupported ENOSYS = True"
| "NotSupported ENOTTY = True"
| "NotSupported ENOMEM = False"

definition fails_with :: "(errno \<Rightarrow> bool) \<Rightarrow> rc \<Rightarrow> bool" where
  "fails_with K r = (case r of Inl e \<Rightarrow> K e | Inr u \<Rightarrow> False)"

section \<open>The operation vectors\<close>

text \<open>
  One mounted instance as the host sees it: the \<open>struct mount\<close> at address
  \<open>w_mpa\<close>, with its vnodes, and the kernel memory. A \<open>call\<close> is one entry of
  \<open>myfs_vfsops\<close> or \<open>myfs_vops\<close> with the arguments the driver reads;
  \<open>VOP_RECLAIM i\<close> is called on the \<open>i\<close>-th vnode of the mount. \<open>dispatch\<close>
  gives the return value and the state after the call; it is \<open>None\<close> when the
  call faults or names a vnode that the mount does not have. The buffer that
  \<open>myfs_statfs\<close> fills and the vnode pointer of \<open>myfs_root\<close> and \<open>myfs_vget\<close>
  belong to the caller and are no part of the state. \<open>vfs_sync\<close> is the host's
  \<open>vfs_stdsync\<close> and is no code of the driver.
\<close>

record world =
  w_mpa :: addr
  w_mp :: mount
  w_kmem :: kmem

datatype call =
    VFS_MOUNT "addr option"
  | VFS_UNMOUNT
  | VFS_ROOT "addr option"
  | VFS_STATFS statfs
  | VFS_VGET "64 word" "addr option"
  | VOP_LOOKUP
  | VOP_CREATE
  | VOP_MKNOD
  | VOP_OPEN
  | VOP_CLOSE
  | VOP_ACCESS
  | VOP_GETATTR
  | VOP_SETATTR
  | VOP_READ vop_read_args
  | VOP_WRITE
  | VOP_IOCTL
  | VOP_POLL
  | VOP_RECLAIM nat
  | VOP_READDIR
  | VOP_READLINK
  | VOP_SYMLINK
  | VOP_REMOVE
  | VOP_RENAME
  | VOP_MKDIR
  | VOP_RMDIR
  | VOP_INACTIVE
  | VOP_TRUNCATE
  | VOP_FSYNC vop_fsync_args

fun dispatch :: "host \<Rightarrow> call \<Rightarrow> world \<Rightarrow> (rc \<times> world) option" where
  "dispatch H (VFS_MOUNT got) w =
     (case myfs_mount H got (w_mpa w) (w_mp w, w_kmem w) of
        (r, m, k) \<Rightarrow> Some (r, w\<lparr>w_mp := m, w_kmem := k\<rparr>))"
| "dispatch H VFS_UNMOUNT w =
     (case myfs_unmount (w_mp w, w_kmem w) of
        (r, m, k) \<Rightarrow> Some (r, w\<lparr>w_mp := m, w_kmem := k\<rparr>))"
| "dispatch H (VFS_ROOT vpp) w = Some (fst (myfs_root (w_mp w) vpp), w)"
| "dispatch H (VFS_STATFS sbp) w =
     (case myfs_statfs H (w_mp w, w_kmem w) sbp of
        None \<Rightarrow> None
      | Some (r, out) \<Rightarrow> Some (r, w))"
| "dispatch H (VFS_VGET i vpp) w = Some (fst (myfs_vget (w_mp w) i vpp), w)"
| "dispatch H VOP_LOOKUP w = Some (myfs_lookup (), w)"
| "dispatch H VOP_CREATE w = Some (myfs_create (), w)"
| "dispatch H VOP_MKNOD w = Some (myfs_mknod (), w)"
| "dispatch H VOP_OPEN w = Some (myfs_open (), w)"
| "dispatch H VOP_CLOSE w = Some (myfs_close (), w)"
| "dispatch H VOP_ACCESS w = Some (myfs_access (), w)"
| "dispatch H VOP_GETATTR w = Some (myfs_getattr (), w)"
| "dispatch H VOP_SETATTR w = Some (myfs_setattr (), w)"
| "dispatch H (VOP_READ ap) w = Some (fst (myfs_read ap), w)"
| "dispatch H VOP_WRITE w = Some (myfs_write (), w)"
| "dispatch H VOP_IOCTL w = Some (myfs_ioctl (), w)"
| "dispatch H VOP_POLL w = Some (myfs_poll (), w)"
| "dispatch H (VOP_RECLAIM i) w =
     (let vs = mnt_nvnodelist (w_mp w) in
       if i < length vs then
         (case myfs_reclaim \<lparr>a_vp = vs ! i\<rparr> (w_kmem w) of
            (r, vp, k) \<Rightarrow>
              Some (r, w\<lparr>w_mp := (w_mp w)\<lparr>mnt_nvnodelist := vs[i := vp]\<rparr>, w_kmem := k\<rparr>))
       else None)"
| "dispatch H VOP_READDIR w = Some (myfs_readdir (), w)"
| "dispatch H VOP_READLINK w = Some (myfs_readlink (), w)"
| "dispatch H VOP_SYMLINK w = Some (myfs_symlink (), w)"
| "dispatch H VOP_REMOVE w = Some (myfs_remove (), w)"
| "dispatch H VOP_RENAME w = Some (myfs_rename (), w)"
| "dispatch H VOP_MKDIR w = Some (myfs_mkdir (), w)"
| "dispatch H VOP_RMDIR w = Some (myfs_rmdir (), w)"
| "dispatch H VOP_INACTIVE w = Some (myfs_inactive (), w)"
| "dispatch H VOP_TRUNCATE w = Some (myfs_truncate (), w)"
| "dispatch H (VOP_FSYNC ap) w = Some (myfs_fsync H ap, w)"

text \<open>
  A sequence of calls, one after the other. A call that returns an errno has
  returned; the host goes on with the next one.
\<close>

fun run :: "host \<Rightarrow> call list \<Rightarrow> world \<Rightarrow> world option" where
  "run H [] w = Some w"
| "run H (c # cs) w =
     (case dispatch H c w of
        None \<Rightarrow> None
      | Some (r, w') \<Rightarrow> run H cs w')"

text \<open>\<open>n + 1\<close> calls of reclaim, one after the other, on the same vnode.\<close>

fun reclaim_times :: "nat \<Rightarrow> vop_args \<Rightarrow> kmem \<Rightarrow> rc \<times> vnode \<times> kmem" where
  "reclaim_times 0 ap k = myfs_reclaim ap k"
| "reclaim_times (Suc n) ap k =
     (case myfs_reclaim ap k of (r, vp, k') \<Rightarrow> reclaim_times n (ap\<lparr>a_vp := vp\<rparr>) k')"

section \<open>The superblock of a mounted instance\<close>

text \<open>
  The superblock of the instance is the one in the \<open>struct myfs_mount\<close> that
  \<open>mnt_data\<close> points to; an instance without one is not mounted.
\<close>

definition superblock :: "world \<Rightarrow> myfs_sb option" where
  "superblock w =
     (case mnt_data (w_mp w) of
        None \<Rightarrow> None
      | Some mmp \<Rightarrow>
          (case mounts_h (w_kmem w) mmp of
             None \<Rightarrow> None
           | Some mm \<Rightarrow> Some (sb mm)))"

definition sb_inv :: "world \<Rightarrow> bool" where
  "sb_inv w = (case superblock w of None \<Rightarrow> True | Some s \<Rightarrow> free_blocks s \<le> total_blocks s)"

definition magic_ok :: "world \<Rightarrow> bool" where
  "magic_ok w = (case superblock w of None \<Rightarrow> False | Some s \<Rightarrow> magic s = MYFS_MAGIC)"

definition fresh_sb :: myfs_sb where
  "fresh_sb = \<lparr>magic = MYFS_MAGIC, total_blocks = 0, free_blocks = 0\<rparr>"

text \<open>
  A mount is busy when one of its vnodes is in use. A read is at or past the end of
  the file when its offset is not below the size of the node of its vnode.
\<close>

definition busy :: "mount \<Rightarrow> bool" where
  "busy m = list_ex (\<lambda>v. v_usecount v \<noteq> 0) (mnt_nvnodelist m)"

definition at_or_past_eof :: "kmem \<Rightarrow> vop_read_args \<Rightarrow> bool" where
  "at_or_past_eof k ap =
     (case v_data (a_vp ap) of
        None \<Rightarrow> False
      | Some a \<Rightarrow>
          (case nodes_h k a of
             None \<Rightarrow> False
           | Some n \<Rightarrow> sint (size_n n) \<le> uio_offset (a_uio ap)))"

section \<open>Concrete states\<close>

definition host_ex :: host where
  "host_ex = \<lparr>PAGE_SIZE = 4096, NAME_MAX = 255, MNT_LOCAL = 0x1000, MNT_WAIT = 1, new_fsid = 9\<rparr>"

definition statfs_ex :: statfs where
  "statfs_ex = \<lparr>f_bsize = 0, f_iosize = 0, f_blocks = 0, f_bfree = 0, f_bavail = 0,
     f_files = 7, f_ffree = 7, f_namemax = 0, f_fsid = 0\<rparr>"

definition node_ex :: myfs_node where
  "node_ex = \<lparr>ino = 2, mode = 0x81A4, nlink = 1, size_n = 100,
     atime = \<lparr>tv_sec = 0, tv_nsec = 0\<rparr>, mtime = \<lparr>tv_sec = 0, tv_nsec = 0\<rparr>,
     ctime = \<lparr>tv_sec = 0, tv_nsec = 0\<rparr>\<rparr>"

text \<open>A vnode with one user, whose node lives at address 7.\<close>

definition vnode_ex :: vnode where
  "vnode_ex = \<lparr>v_data = Some 7, v_usecount = 1\<rparr>"

text \<open>An instance before mount: one vnode, no mount data.\<close>

definition world_ex :: world where
  "world_ex = \<lparr>w_mpa = 3,
     w_mp = \<lparr>mnt_data = None, mnt_stat = statfs_ex, mnt_flag = 0, mnt_nvnodelist = [vnode_ex]\<rparr>,
     w_kmem = \<lparr>mounts_h = Map.empty, nodes_h = [7 \<mapsto> node_ex], free_log = []\<rparr>\<rparr>"

text \<open>The same instance after a mount whose \<open>malloc\<close> returned address 5.\<close>

definition mounted_ex :: world where
  "mounted_ex = snd (the (dispatch host_ex (VFS_MOUNT (Some 5)) world_ex))"

text \<open>A read of 10 bytes at offset 100 of the 100-byte file, and one at offset 250.\<close>

definition read_ex :: vop_read_args where
  "read_ex = \<lparr>a_vp = vnode_ex, a_uio = \<lparr>uio_offset = 100, uio_resid = 10\<rparr>, a_ioflag = 0\<rparr>"

definition fsync_ex :: vop_fsync_args where
  "fsync_ex = \<lparr>a_vp = vnode_ex, a_waitfor = 1, a_td = 0\<rparr>"

text \<open>Calls on the mounted instance, the vnode reclaimed twice; and the state after them.\<close>

definition calls_ex :: "call list" where
  "calls_ex = [VOP_OPEN, VOP_WRITE, VFS_STATFS statfs_ex, VOP_FSYNC fsync_ex, VOP_CLOSE,
     VOP_RECLAIM 0, VOP_RECLAIM 0]"

definition after_ex :: world where
  "after_ex = the (run host_ex calls_ex mounted_ex)"

section \<open>Facts about the concrete states\<close>

lemma mounted_ex_mount:
  "dispatch host_ex (VFS_MOUNT (Some 5)) world_ex = Some (Inr (), mounted_ex)"
  by (simp add: mounted_ex_def myfs_mount_def Let_def)

lemma mounted_ex_mnt_data: "mnt_data (w_mp mounted_ex) = Some 5"
  by (simp add: mounted_ex_def world_ex_def myfs_mount_def vfs_getnewfsid_def Let_def)

lemma mounted_ex_object:
  "mounts_h (w_kmem mounted_ex) 5 = Some \<lparr>mp = Some 3, sb = fresh_sb\<rparr>"
  by (simp add: mounted_ex_def world_ex_def myfs_mount_def zero_myfs_mount_def fresh_sb_def
      Let_def)

lemma mounted_ex_vnodes: "mnt_nvnodelist (w_mp mounted_ex) = [vnode_ex]"
  by (simp add: mounted_ex_def world_ex_def myfs_mount_def vfs_getnewfsid_def Let_def)

lemma mounted_ex_nodes: "nodes_h (w_kmem mounted_ex) 7 = Some node_ex"
  by (simp add: mounted_ex_def world_ex_def myfs_mount_def Let_def)

lemma run_calls_ex: "run host_ex calls_ex mounted_ex = Some after_ex"
proof -
  have "run host_ex calls_ex mounted_ex \<noteq> None"
    by (simp add: calls_ex_def myfs_open_def myfs_write_def myfs_statfs_def myfs_fsync_def
        myfs_close_def myfs_reclaim_def free_node_def mounted_ex_mnt_data mounted_ex_object
        mounted_ex_vnodes vnode_ex_def Let_def)
  then show ?thesis
    by (auto simp: after_ex_def)
qed

section \<open>Root directory\<close>

text \<open>
  C1 (as the code has it): resolving the root directory is not implemented. For every
  mount, mounted or not, \<open>myfs_root\<close> returns ENOSYS and leaves the caller's vnode
  pointer as it was, and \<open>myfs_lookup\<close> returns ENOSYS for every argument; both
  errors are of kind NotSupported. The driver defines no root inode number.
\<close>

theorem root_lookup_not_implemented:
  "myfs_root m vpp = (Inl ENOSYS, vpp) \<and> myfs_lookup ap = Inl ENOSYS \<and>
   fails_with NotSupported (fst (myfs_root m vpp)) \<and> fails_with NotSupported (myfs_lookup ap)"
  by (simp add: myfs_root_def myfs_lookup_def fails_with_def)

text \<open>
  C1 as stated fails: right after the mount of \<open>world_ex\<close>, \<open>myfs_root\<close> and the
  lookup of \<open>.\<close> return an error and not 0.
\<close>

theorem root_after_mount_fails:
  "superblock mounted_ex = Some fresh_sb \<and>
   fst (myfs_root (w_mp mounted_ex) None) \<noteq> Inr () \<and>
   snd (myfs_root (w_mp mounted_ex) None) = None \<and>
   myfs_lookup ''.'' \<noteq> Inr ()"
  by (simp add: superblock_def mounted_ex_mnt_data mounted_ex_object myfs_root_def
      myfs_lookup_def)

section \<open>Unmount\<close>

text \<open>
  C2 (as the code has it): \<open>myfs_unmount\<close> takes no force flag and reads no reference
  count. For every mount, whether or not one of its vnodes is in use, it returns 0 and
  leaves \<open>mnt_data\<close> NULL; when \<open>mnt_data\<close> was not NULL it frees the object it
  pointed to, by one call of \<open>free\<close>, and otherwise it leaves the kernel memory as it
  was. It never fails.
\<close>

theorem unmount_always_succeeds:
  "(case myfs_unmount (m, k) of
      (r, m', k') \<Rightarrow>
        r = Inr () \<and> mnt_data m' = None \<and>
        (case mnt_data m of
           None \<Rightarrow> k' = k
         | Some mmp \<Rightarrow> mounts_h k' mmp = None \<and> free_log k' = mmp # free_log k))"
  by (simp add: myfs_unmount_def free_mount_def split: option.split)

text \<open>
  C2 as stated fails: the mounted instance \<open>mounted_ex\<close> has a vnode with use
  count 1, and its unmount returns 0 and releases the mount data.
\<close>

theorem unmount_busy_succeeds:
  "busy (w_mp mounted_ex) \<and>
   fst (myfs_unmount (w_mp mounted_ex, w_kmem mounted_ex)) = Inr () \<and>
   mnt_data (fst (snd (myfs_unmount (w_mp mounted_ex, w_kmem mounted_ex)))) = None \<and>
   mounts_h (snd (snd (myfs_unmount (w_mp mounted_ex, w_kmem mounted_ex)))) 5 = None"
  by (simp add: busy_def mounted_ex_vnodes vnode_ex_def myfs_unmount_def mounted_ex_mnt_data
      free_mount_def)

section \<open>Read\<close>

text \<open>
  C3 (as the code has it): read is not implemented. For every call, whatever the
  offset and the size of the file, \<open>myfs_read\<close> returns ENOSYS, an error of kind
  NotSupported, and transfers nothing: the \<open>uio\<close> is left as it was.
\<close>

theorem read_not_implemented:
  "myfs_read ap = (Inl ENOSYS, a_uio ap) \<and> fails_with NotSupported (fst (myfs_read ap))"
  by (simp add: myfs_read_def fails_with_def)

text \<open>
  C3 as stated fails: \<open>read_ex\<close> reads at offset 100 of a file of 100 bytes, and
  the call returns an error.
\<close>

theorem read_at_eof_fails:
  "at_or_past_eof (w_kmem mounted_ex) read_ex \<and>
   fst (myfs_read read_ex) = Inl ENOSYS \<and> fst (myfs_read read_ex) \<noteq> Inr ()"
  by (simp add: at_or_past_eof_def read_ex_def vnode_ex_def mounted_ex_nodes node_ex_def
      myfs_read_def)

section \<open>Return values of the operations that read no state\<close>

text \<open>
  C4: every call of ioctl and every call of poll fails with an error of kind
  NotSupported: ioctl returns ENOTTY and poll returns ENOSYS, whatever the arguments.
\<close>

theorem ioctl_poll_not_supported:
  "myfs_ioctl ap = Inl ENOTTY \<and> fails_with NotSupported (myfs_ioctl ap) \<and>
   myfs_poll ap' = Inl ENOSYS \<and> fails_with NotSupported (myfs_poll ap')"
  by (simp add: myfs_ioctl_def myfs_poll_def fails_with_def)

text \<open>
  C5: close, reclaim and inactive never fail: each returns 0 for every argument and
  every state of the kernel memory.
\<close>

theorem close_reclaim_inactive_never_fail:
  "myfs_close ap = Inr () \<and> fst (myfs_reclaim rp k) = Inr () \<and> myfs_inactive ip = Inr ()"
  by (simp add: myfs_close_def myfs_reclaim_def myfs_inactive_def Let_def split: option.split)

section \<open>Statistics\<close>

text \<open>
  C6: for every mounted instance (\<open>mnt_data\<close> points to a live
  \<open>struct myfs_mount\<close>), \<open>myfs_statfs\<close> returns 0 and reports the superblock's
  \<open>total_blocks\<close> as total and its \<open>free_blocks\<close> as free and available block
  counts; the inode counts it reports are zero.
\<close>

theorem statfs_reports_superblock:
  assumes "mnt_data m = Some mmp"
    and "mounts_h k mmp = Some mm"
  shows "(case myfs_statfs H (m, k) sbp of
            None \<Rightarrow> False
          | Some (r, out) \<Rightarrow>
              r = Inr () \<and>
              f_blocks out = total_blocks (sb mm) \<and>
              f_bfree out = free_blocks (sb mm) \<and>
              f_bavail out = free_blocks (sb mm) \<and>
              f_files out = 0 \<and> f_ffree out = 0)"
  using assms by (simp add: myfs_statfs_def)

theorem statfs_reports_superblock_witness:
  "mnt_data (w_mp mounted_ex) = Some 5 \<and>
   mounts_h (w_kmem mounted_ex) 5 = Some \<lparr>mp = Some 3, sb = fresh_sb\<rparr> \<and>
   (case myfs_statfs host_ex (w_mp mounted_ex, w_kmem mounted_ex) statfs_ex of
      None \<Rightarrow> False
    | Some (r, out) \<Rightarrow>
        r = Inr () \<and> f_blocks out = 0 \<and> f_bfree out = 0 \<and> f_bavail out = 0 \<and>
        f_files out = 0 \<and> f_ffree out = 0)"
proof -
  from statfs_reports_superblock [OF mounted_ex_mnt_data mounted_ex_object,
      of host_ex statfs_ex]
  have "(case myfs_statfs host_ex (w_mp mounted_ex, w_kmem mounted_ex) statfs_ex of
      None \<Rightarrow> False
    | Some (r, out) \<Rightarrow>
        r = Inr () \<and> f_blocks out = 0 \<and> f_bfree out = 0 \<and> f_bavail out = 0 \<and>
        f_files out = 0 \<and> f_ffree out = 0)"
    by (auto simp: fresh_sb_def split: option.splits)
  with mounted_ex_mnt_data mounted_ex_object show ?thesis
    by simp
qed

section \<open>Superblock invariants\<close>

lemma dispatch_superblock:
  "dispatch H c w = Some (r, w') \<Longrightarrow>
     superblock w' = superblock w \<or> superblock w' = Some fresh_sb \<or>
     (c = VFS_UNMOUNT \<and> superblock w' = None)"
  by (cases c)
     (auto simp: superblock_def fresh_sb_def myfs_mount_def myfs_unmount_def free_mount_def
        free_node_def myfs_reclaim_def zero_myfs_mount_def vfs_getnewfsid_def Let_def
        split: option.splits prod.splits if_splits)

lemma mount_superblock:
  "dispatch H (VFS_MOUNT got) w = Some (Inr (), w') \<Longrightarrow> superblock w' = Some fresh_sb"
  by (auto simp: superblock_def fresh_sb_def myfs_mount_def zero_myfs_mount_def
        vfs_getnewfsid_def Let_def split: option.splits)

lemma run_superblock:
  "run H cs w = Some w' \<Longrightarrow>
     superblock w' = superblock w \<or> superblock w' = Some fresh_sb \<or>
     (VFS_UNMOUNT \<in> set cs \<and> superblock w' = None)"
proof (induction cs arbitrary: w)
  case Nil
  then show ?case by simp
next
  case (Cons c cs)
  from Cons.prems obtain r w1 where
    step: "dispatch H c w = Some (r, w1)" and rest: "run H cs w1 = Some w'"
    by (auto split: option.splits)
  from dispatch_superblock [OF step] Cons.IH [OF rest] show ?case
    by auto
qed

text \<open>
  C7: \<open>free_blocks \<le> total_blocks\<close> holds for the superblock after a successful
  mount, and after every sequence of calls of the driver's operations that follows it.
\<close>

theorem sb_free_le_total:
  assumes "dispatch H (VFS_MOUNT got) w0 = Some (Inr (), w1)"
    and "run H cs w1 = Some w2"
  shows "sb_inv w1 \<and> sb_inv w2"
proof -
  have s1: "superblock w1 = Some fresh_sb"
    using assms(1) by (rule mount_superblock)
  have "superblock w2 = Some fresh_sb \<or> superblock w2 = None"
    using run_superblock [OF assms(2)] s1 by auto
  with s1 show ?thesis
    by (auto simp: sb_inv_def fresh_sb_def)
qed

theorem sb_free_le_total_witness:
  "dispatch host_ex (VFS_MOUNT (Some 5)) world_ex = Some (Inr (), mounted_ex) \<and>
   run host_ex calls_ex mounted_ex = Some after_ex \<and>
   sb_inv mounted_ex \<and> sb_inv after_ex"
  using sb_free_le_total [OF mounted_ex_mount run_calls_ex] mounted_ex_mount run_calls_ex
  by simp

text \<open>
  C8: after a successful mount the instance has a superblock whose \<open>magic\<close> is
  \<open>MYFS_MAGIC\<close>, and it still has after every sequence of calls of the driver's
  operations that does not unmount it.
\<close>

theorem magic_for_lifetime:
  assumes "dispatch H (VFS_MOUNT got) w0 = Some (Inr (), w1)"
    and "run H cs w1 = Some w2"
    and "VFS_UNMOUNT \<notin> set cs"
  shows "magic_ok w1 \<and> magic_ok w2"
proof -
  have s1: "superblock w1 = Some fresh_sb"
    using assms(1) by (rule mount_superblock)
  have "superblock w2 = Some fresh_sb"
    using run_superblock [OF assms(2)] s1 assms(3) by auto
  with s1 show ?thesis
    by (simp add: magic_ok_def fresh_sb_def)
qed

theorem magic_for_lifetime_witness:
  "dispatch host_ex (VFS_MOUNT (Some 5)) world_ex = Some (Inr (), mounted_ex) \<and>
   run host_ex calls_ex mounted_ex = Some after_ex \<and>
   VFS_UNMOUNT \<notin> set calls_ex \<and>
   magic_ok mounted_ex \<and> magic_ok after_ex"
proof -
  have no_unmount: "VFS_UNMOUNT \<notin> set calls_ex"
    by (simp add: calls_ex_def)
  from magic_for_lifetime [OF mounted_ex_mount run_calls_ex no_unmount]
  show ?thesis
    using mounted_ex_mount run_calls_ex no_unmount by simp
qed

section \<open>Fsync and reclaim\<close>

text \<open>
  C9: a blocking fsync (\<open>a_waitfor\<close> is \<open>MNT_WAIT\<close>) returns 0 and leaves the
  state of the instance as it was, and a second one right after it returns 0 again and
  changes nothing either.
\<close>

theorem fsync_idempotent:
  assumes "a_waitfor ap = MNT_WAIT H"
  shows "myfs_fsync H ap = Inr () \<and>
         (case dispatch H (VOP_FSYNC ap) w of
            None \<Rightarrow> False
          | Some (r1, w1) \<Rightarrow>
              r1 = Inr () \<and> w1 = w \<and> dispatch H (VOP_FSYNC ap) w1 = Some (Inr (), w1))"
  using assms by (simp add: myfs_fsync_def)

theorem fsync_idempotent_witness:
  "a_waitfor fsync_ex = MNT_WAIT host_ex \<and>
   myfs_fsync host_ex fsync_ex = Inr () \<and>
   dispatch host_ex (VOP_FSYNC fsync_ex) mounted_ex = Some (Inr (), mounted_ex)"
proof -
  have blocking: "a_waitfor fsync_ex = MNT_WAIT host_ex"
    by (simp add: fsync_ex_def host_ex_def)
  from fsync_idempotent [OF blocking, of mounted_ex] blocking show ?thesis
    by (auto split: option.splits)
qed

lemma reclaim_again:
  "myfs_reclaim ap k = (r, vp, k') \<Longrightarrow> myfs_reclaim (ap\<lparr>a_vp := vp\<rparr>) k' = (Inr (), vp, k')"
  by (auto simp: myfs_reclaim_def Let_def split: option.splits)

lemma reclaim_times_first: "reclaim_times n ap k = myfs_reclaim ap k"
proof (induction n arbitrary: ap k)
  case 0
  show ?case by simp
next
  case (Suc n)
  obtain r vp k' where first: "myfs_reclaim ap k = (r, vp, k')"
    by (cases "myfs_reclaim ap k")
  have "r = Inr ()"
    using first by (auto simp: myfs_reclaim_def Let_def split: option.splits)
  with first Suc.IH [of "ap\<lparr>a_vp := vp\<rparr>" k'] reclaim_again [OF first]
  show ?case by simp
qed

text \<open>
  C10: reclaim can be called again and again on the same vnode. The first call
  returns 0 and leaves \<open>v_data\<close> NULL; when \<open>v_data\<close> was not NULL it frees the node
  by one call of \<open>free\<close>, and otherwise it leaves the kernel memory as it was. A
  second call on the vnode returns 0 and changes neither the vnode nor the kernel
  memory, so it frees nothing; and \<open>n + 1\<close> calls in a row return what the first
  returned and leave the state the first left.
\<close>

theorem reclaim_idempotent:
  "(case myfs_reclaim ap k of
      (r1, vp1, k1) \<Rightarrow>
        r1 = Inr () \<and> v_data vp1 = None \<and>
        (case v_data (a_vp ap) of
           None \<Rightarrow> k1 = k
         | Some node \<Rightarrow> nodes_h k1 node = None \<and> free_log k1 = node # free_log k) \<and>
        myfs_reclaim (ap\<lparr>a_vp := vp1\<rparr>) k1 = (Inr (), vp1, k1) \<and>
        reclaim_times n ap k = (Inr (), vp1, k1))"
proof -
  obtain r vp k' where first: "myfs_reclaim ap k = (r, vp, k')"
    by (cases "myfs_reclaim ap k")
  have facts: "r = Inr () \<and> v_data vp = None \<and>
      (case v_data (a_vp ap) of
         None \<Rightarrow> k' = k
       | Some node \<Rightarrow> nodes_h k' node = None \<and> free_log k' = node # free_log k)"
    using first by (auto simp: myfs_reclaim_def free_node_def Let_def split: option.splits)
  from first facts reclaim_again [OF first] reclaim_times_first [of n ap k]
  show ?thesis by simp
qed

end
